theory Spec2Isabelle
  imports Main "HOL-Library.Word"
begin

section \<open>Status values\<close>

text \<open>
  The framework's \<^verbatim>\<open>common::Status\<close> is either OK or an error made of a category, a
  code and a message.  The sources build errors with \<^verbatim>\<open>ORT_MAKE_STATUS(category, code,
  args...)\<close>, which renders its arguments one after the other into the message.  The
  rendering of a number or of a tensor shape is framework code; the message is kept here
  as the list of the arguments handed to the macro, in order.
\<close>

datatype StatusCategory = NONE | SYSTEM | ONNXRUNTIME

datatype StatusCode = FAIL | INVALID_ARGUMENT | OtherCode nat

datatype MsgArg = Text string | Size nat | Shape "int list"

datatype Status = OK | Error StatusCategory StatusCode "MsgArg list"

definition IsOK :: "Status \<Rightarrow> bool" where
  "IsOK s = (s = OK)"

definition ORT_MAKE_STATUS :: "StatusCategory \<Rightarrow> StatusCode \<Rightarrow> MsgArg list \<Rightarrow> Status" where
  "ORT_MAKE_STATUS category code args = Error category code args"

section \<open>The JS execution provider's data transfer (\<^verbatim>\<open>core/providers/js/data_transfer.cc\<close>)\<close>

text \<open>
  \<^verbatim>\<open>OrtDevice::Type()\<close> is compared with \<^verbatim>\<open>OrtDevice::CPU\<close> and \<^verbatim>\<open>OrtDevice::GPU\<close>
  only; every other declared device type is \<open>OtherDevice\<close>.
\<close>

datatype DeviceType = CPU | GPU | OtherDevice nat

record OrtDevice =
  Type :: DeviceType

text \<open>
  A tensor as \<^verbatim>\<open>CopyTensor\<close> reads it: its size in bytes, the address of its buffer and
  the device of its location.
\<close>

record Tensor =
  SizeInBytes :: nat
  DataRaw :: nat
  Location_device :: OrtDevice

text \<open>
  What \<^verbatim>\<open>CopyTensor\<close> acts on: the linear memory (address to byte) written by
  \<^verbatim>\<open>memcpy\<close>, and the calls made into the JavaScript module through \<^verbatim>\<open>EM_ASM\<close>, in
  the order they are made.  Both JavaScript calls are made without arguments.
\<close>

datatype JsCall = jsepUpload | jsepDownload

record Heap =
  mem :: "nat \<Rightarrow> 8 word"
  js_calls :: "JsCall list"

text \<open>
  \<^verbatim>\<open>memcpy(dst, src, n)\<close>: the \<open>n\<close> bytes starting at \<open>dst\<close> receive the bytes that
  were at \<open>src\<close>; every other address keeps its byte.  (C leaves overlapping ranges
  undefined; the bytes are read here from the memory before the call.)
\<close>

definition memcpy :: "nat \<Rightarrow> nat \<Rightarrow> nat \<Rightarrow> (nat \<Rightarrow> 8 word) \<Rightarrow> (nat \<Rightarrow> 8 word)" where
  "memcpy dst_data src_data bytes m =
     (\<lambda>a. if dst_data \<le> a \<and> a < dst_data + bytes then m (src_data + (a - dst_data)) else m a)"

definition EM_ASM :: "JsCall \<Rightarrow> Heap \<Rightarrow> Heap" where
  "EM_ASM c h = h\<lparr>js_calls := js_calls h @ [c]\<rparr>"

definition CanCopy :: "OrtDevice \<Rightarrow> OrtDevice \<Rightarrow> bool" where
  "CanCopy src_device dst_device =
     ((Type dst_device = GPU \<and> Type src_device = CPU) \<or>
      (Type dst_device = CPU \<and> Type src_device = GPU))"

definition CopyTensor :: "Tensor \<Rightarrow> Tensor \<Rightarrow> Heap \<Rightarrow> Status \<times> Heap" where
  "CopyTensor src dst h =
     (let bytes = SizeInBytes src;
          src_data = DataRaw src;
          dst_data = DataRaw dst;
          src_device = Location_device src;
          dst_device = Location_device dst;
          h' = (if Type dst_device = GPU then EM_ASM jsepUpload h
                else if Type src_device = GPU then EM_ASM jsepDownload h
                else h\<lparr>mem := memcpy dst_data src_data bytes (mem h)\<rparr>)
      in (OK, h'))"

section \<open>Greedy search base (\<^verbatim>\<open>contrib_ops/cpu/transformers/greedy_search_impl_base.h\<close>)\<close>

subsection \<open>The kernel context and the parameters\<close>

text \<open>
  A tensor shape is the list of its dimensions (\<^verbatim>\<open>Shape().GetDims()\<close>).  A pointer that
  may be null is an \<open>option\<close>; opaque framework objects (allocators, streams, thread
  pools, session states) are handles.
\<close>

type_synonym TensorShape = "int list"

type_synonym handle = nat

type_synonym AllocatorPtr = "handle option"

text \<open>
  The kernel context, as far as the sources read it.  \<open>input_ids\<close> is the shape of input
  0, which the operator declares as required and which \<^verbatim>\<open>CheckInputs\<close> dereferences
  without a test.  \<open>Input i\<close> is the shape of the optional input \<open>i\<close>, \<open>None\<close> when
  \<^verbatim>\<open>Input<Tensor>(i)\<close> is the null pointer.  \<open>GetTempSpaceAllocator\<close> receives the
  pointer it is to fill and returns its status together with the pointer it leaves.
\<close>

record OpKernelContextInternal =
  GetTempSpaceAllocator :: "AllocatorPtr \<Rightarrow> Status \<times> AllocatorPtr"
  input_ids :: TensorShape
  Input :: "nat \<Rightarrow> TensorShape option"
  SubgraphSessionState :: "string \<Rightarrow> handle option"
  GetOperatorThreadPool :: "handle option"

text \<open>
  The two fields of \<^verbatim>\<open>BeamSearchParameters\<close> that the base class writes; the remaining
  fields live in the extension part of the record.
\<close>

record BeamSearchParameters =
  output_scores :: bool
  no_repeat_ngram_size :: int

subsection \<open>The stored sequences\<close>

text \<open>
  Modelled from the spec: the class \<^verbatim>\<open>Sequences\<close> with its method
  \<^verbatim>\<open>AppendNextTokenToSequences\<close> (\<^verbatim>\<open>sequences.h\<close>) is not among the sources.  The
  specification describes the store as one ordered, append-only sequence of token ids
  per (batch, beam) slot, with a finished flag per slot that is set once EOS was appended
  or the length reached \<open>max_length\<close>.
\<close>

record Sequences =
  seqs :: "int list list"
  finished :: "bool list"
  max_length :: nat
  eos_token_id :: int

text \<open>
  Modelled from the spec: the contract of \<open>append(beam_indices, next_tokens)\<close>.  The
  selector hands over one (beam index, token) pair per slot; an active slot extends the
  history of an active slot (finished beams are excluded from expansion).  A call outside
  this contract is an invariant violation, fatal to the run.
\<close>

definition append_contract :: "int list \<Rightarrow> int list \<Rightarrow> Sequences \<Rightarrow> bool" where
  "append_contract beam_indices next_tokens S =
     (length (finished S) = length (seqs S) \<and>
      length beam_indices = length (seqs S) \<and>
      length next_tokens = length (seqs S) \<and>
      (\<forall>i \<in> set [0..<length (seqs S)].
          \<not> finished S ! i \<longrightarrow>
            0 \<le> beam_indices ! i \<and> nat (beam_indices ! i) < length (seqs S) \<and>
            \<not> finished S ! nat (beam_indices ! i)))"

text \<open>
  Modelled from the spec: what \<open>append\<close> does to one slot (\<^verbatim>\<open>sequences.h\<close> is not among
  the sources).  An active slot receives the history of the slot named by its beam index,
  extended by its next token, and becomes finished when that token is EOS or the new
  length equals \<open>max_length\<close>; for a finished slot the call is a no-op.
\<close>

definition append_slot :: "int list \<Rightarrow> int list \<Rightarrow> Sequences \<Rightarrow> nat \<Rightarrow> int list \<times> bool" where
  "append_slot beam_indices next_tokens S i =
     (if finished S ! i then (seqs S ! i, True)
      else (let row = seqs S ! nat (beam_indices ! i) @ [next_tokens ! i]
            in (row, next_tokens ! i = eos_token_id S \<or> length row = max_length S)))"

text \<open>
  Modelled from the spec: \<open>append(beam_indices, next_tokens)\<close>, the method
  \<^verbatim>\<open>AppendNextTokenToSequences\<close> of the absent class.  Within its contract every slot is
  treated as above; \<open>None\<close> is the fatal contract violation.
\<close>

definition AppendNextTokenToSequences :: "int list \<Rightarrow> int list \<Rightarrow> Sequences \<Rightarrow> Sequences option" where
  "AppendNextTokenToSequences beam_indices next_tokens S =
     (if append_contract beam_indices next_tokens S
      then (let slots = map (append_slot beam_indices next_tokens S) [0..<length (seqs S)]
            in Some (S\<lparr>seqs := map fst slots, finished := map snd slots\<rparr>))
      else None)"

subsection \<open>The search object\<close>

text \<open>
  Scores are floating-point numbers on which the base class does no arithmetic; their
  type is the parameter \<open>'sc\<close>.  Token ids and beam indices are \<^verbatim>\<open>int32_t\<close> values that are
  only stored and compared.
\<close>

record 'sc BeamSearchState =
  beam_scores :: "'sc list"

record BeamSearchCpuState =
  sequences :: Sequences

record 'sc BeamScorer =
  GetNextScores :: "'sc list"
  GetNextTokens :: "int list"
  GetNextIndices :: "int list"

text \<open>
  Modelled from the spec: the copy direction (the enumeration is declared outside the
  sources; the specification names these two directions).
\<close>

datatype DeviceCopyDirection = hostToDevice | deviceToHost

text \<open>
  The objects that the process-logits device function receives by pointer and may
  change: the beam state, the CPU state (whose \<open>sequences\<close> member is passed once more
  on its own), the logits processors and the beam scorer.
\<close>

record ('sc, 'lp) LogitsObjects =
  lo_beam_state :: "'sc BeamSearchState"
  lo_cpu_state :: BeamSearchCpuState
  lo_logits_processors :: 'lp
  lo_beam_scorer :: "'sc BeamScorer"

text \<open>
  The device functions are values handed to the constructor.  The process-logits
  function receives the logits, the objects above, the allocator, the parameters, the
  step counter and the stream; the device-copy function receives the target span, the
  source span, the stream and the direction, and returns the target span as it leaves it.
\<close>

type_synonym ('l, 'sc, 'p, 'lp) ProcessLogitsFunc =
  "'l \<Rightarrow> ('sc, 'lp) LogitsObjects \<Rightarrow> AllocatorPtr \<Rightarrow> 'p BeamSearchParameters_scheme \<Rightarrow> int
     \<Rightarrow> handle option \<Rightarrow> Status \<times> ('sc, 'lp) LogitsObjects"

type_synonym 'sc DeviceCopyFunc =
  "'sc list \<Rightarrow> 'sc list \<Rightarrow> handle option \<Rightarrow> DeviceCopyDirection \<Rightarrow> Status \<times> 'sc list"

text \<open>
  The members of \<^verbatim>\<open>GreedySearchBase<T>\<close> that its methods use, named as in the
  class without the trailing underscore (\<open>op_context\<close> is \<^verbatim>\<open>context_\<close>).  The
  declaration of the beam scorer member is commented out in the class, while
  \<^verbatim>\<open>ProcessLogits\<close> and \<^verbatim>\<open>GenerateNextToken\<close> still use it; it is a member here.
\<close>

record ('l, 'sc, 'p, 'lp) GreedySearchBase =
  op_context :: OpKernelContextInternal
  cuda_stream :: "handle option"
  parameters :: "'p BeamSearchParameters_scheme"
  logits_processors :: 'lp
  beam_scorer :: "'sc BeamScorer"
  temp_space_allocator :: AllocatorPtr
  process_logits_func :: "('l, 'sc, 'p, 'lp) ProcessLogitsFunc"
  device_copy_func :: "'sc DeviceCopyFunc"

definition IsCuda :: "('l, 'sc, 'p, 'lp) GreedySearchBase \<Rightarrow> bool" where
  "IsCuda g = (cuda_stream g \<noteq> None)"

subsection \<open>Validation and initialisation\<close>

definition CheckInputs :: "OpKernelContextInternal \<Rightarrow> Status" where
  "CheckInputs context =
     (let dims = input_ids context
      in if length dims \<noteq> 2
         then ORT_MAKE_STATUS ONNXRUNTIME INVALID_ARGUMENT
                [Text ''Input 'input_ids' is expected to have 2 dimensions, got '',
                 Size (length dims)]
         else OK)"

text \<open>
  The macro \<^verbatim>\<open>CHECK_SCALAR_INPUT(name, index, required)\<close>: \<open>Some\<close> status is the
  \<^verbatim>\<open>return\<close> of the macro, \<open>None\<close> is falling through to the next statement.  The test
  \<^verbatim>\<open>TensorShape::IsScalar\<close> is framework code and a parameter.
\<close>

definition CHECK_SCALAR_INPUT ::
  "(TensorShape \<Rightarrow> bool) \<Rightarrow> OpKernelContextInternal \<Rightarrow> string \<Rightarrow> nat \<Rightarrow> bool \<Rightarrow> Status option" where
  "CHECK_SCALAR_INPUT IsScalar context name index required =
     (case Input context index of
        Some shape \<Rightarrow>
          if \<not> IsScalar shape
          then Some (ORT_MAKE_STATUS ONNXRUNTIME FAIL
                 [Text ('''BeamSearch' input '' @ name @ '' should be a scalar. Got shape of ''),
                  Shape shape])
          else None
      | None \<Rightarrow>
          if required
          then Some (ORT_MAKE_STATUS ONNXRUNTIME FAIL
                 [Text ('''BeamSearch' input '' @ name @ '' is required'')])
          else None)"

text \<open>
  \<^verbatim>\<open>Initialize\<close>.  \<^verbatim>\<open>LogitsProcessorList::Init\<close> is framework code and a parameter.
\<close>

definition Initialize ::
  "(TensorShape \<Rightarrow> bool) \<Rightarrow> ('p BeamSearchParameters_scheme \<Rightarrow> 'lp \<Rightarrow> 'lp) \<Rightarrow>
   ('l, 'sc, 'p, 'lp) GreedySearchBase \<Rightarrow> Status \<times> ('l, 'sc, 'p, 'lp) GreedySearchBase" where
  "Initialize IsScalar Init g =
     (case GetTempSpaceAllocator (op_context g) (temp_space_allocator g) of
        (st, alloc) \<Rightarrow>
          (let g1 = g\<lparr>temp_space_allocator := alloc\<rparr> in
           if \<not> IsOK st then (st, g1)
           else (case CHECK_SCALAR_INPUT IsScalar (op_context g1) ''max_length'' 1 True of
              Some e \<Rightarrow> (e, g1)
            | None \<Rightarrow>
               (case CHECK_SCALAR_INPUT IsScalar (op_context g1) ''min_length'' 2 False of
                  Some e \<Rightarrow> (e, g1)
                | None \<Rightarrow>
                   (let st2 = CheckInputs (op_context g1) in
                    if \<not> IsOK st2 then (st2, g1)
                    else (let g2 = g1\<lparr>parameters := (parameters g1)\<lparr>output_scores := False\<rparr>\<rparr>;
                              g3 = g2\<lparr>parameters := (parameters g2)\<lparr>no_repeat_ngram_size := 0\<rparr>\<rparr>;
                              g4 = (if \<not> IsCuda g3
                                    then g3\<lparr>logits_processors :=
                                              Init (parameters g3) (logits_processors g3)\<rparr>
                                    else g3)
                          in (OK, g4)))))))"

subsection \<open>One step of token generation\<close>

definition ProcessLogits ::
  "('l, 'sc, 'p, 'lp) GreedySearchBase \<Rightarrow> 'l \<Rightarrow> 'sc BeamSearchState \<Rightarrow> BeamSearchCpuState \<Rightarrow>
   AllocatorPtr \<Rightarrow> int \<Rightarrow>
   Status \<times> ('l, 'sc, 'p, 'lp) GreedySearchBase \<times> 'sc BeamSearchState \<times> BeamSearchCpuState" where
  "ProcessLogits g logits beam_state cpu_state allocator counter =
     (case process_logits_func g logits
             \<lparr>lo_beam_state = beam_state, lo_cpu_state = cpu_state,
              lo_logits_processors = logits_processors g, lo_beam_scorer = beam_scorer g\<rparr>
             allocator (parameters g) counter (cuda_stream g) of
        (st, objs) \<Rightarrow>
          (st,
           g\<lparr>logits_processors := lo_logits_processors objs, beam_scorer := lo_beam_scorer objs\<rparr>,
           lo_beam_state objs, lo_cpu_state objs))"

text \<open>
  The caller's variables that \<^verbatim>\<open>GenerateNextToken\<close> receives by reference.
\<close>

record 'sc StepVars =
  beam_next_tokens :: "int list"
  beam_indices :: "int list"
  beam_state :: "'sc BeamSearchState"
  cpu_state :: BeamSearchCpuState

text \<open>
  \<^verbatim>\<open>GenerateNextToken\<close>.  The result is the returned status with the search object and
  the caller's variables as the call leaves them; \<open>None\<close> is the run aborted inside
  \<^verbatim>\<open>AppendNextTokenToSequences\<close>.
\<close>

definition GenerateNextToken ::
  "('l, 'sc, 'p, 'lp) GreedySearchBase \<Rightarrow> 'l \<Rightarrow> 'sc StepVars \<Rightarrow> int \<Rightarrow>
   (Status \<times> ('l, 'sc, 'p, 'lp) GreedySearchBase \<times> 'sc StepVars) option" where
  "GenerateNextToken g logits v counter =
     (case ProcessLogits g logits (beam_state v) (cpu_state v) (temp_space_allocator g) counter of
        (st1, g1, bs1, cs1) \<Rightarrow>
          let v1 = v\<lparr>beam_state := bs1, cpu_state := cs1\<rparr> in
          if \<not> IsOK st1 then Some (st1, g1, v1)
          else let next_scores = GetNextScores (beam_scorer g1) in
            (case device_copy_func g1 (beam_scores (beam_state v1)) next_scores
                    (cuda_stream g1) hostToDevice of
               (st2, target) \<Rightarrow>
                 let v2 = v1\<lparr>beam_state := (beam_state v1)\<lparr>beam_scores := target\<rparr>\<rparr> in
                 if \<not> IsOK st2 then Some (st2, g1, v2)
                 else let v3 = v2\<lparr>beam_next_tokens := GetNextTokens (beam_scorer g1),
                                    beam_indices := GetNextIndices (beam_scorer g1)\<rparr>
                   in (case AppendNextTokenToSequences (beam_indices v3) (beam_next_tokens v3)
                              (sequences (cpu_state v3)) of
                         None \<Rightarrow> None
                       | Some S \<Rightarrow>
                           Some (OK, g1, v3\<lparr>cpu_state := (cpu_state v3)\<lparr>sequences := S\<rparr>\<rparr>))))"

text \<open>
  Modelled from the spec: the \<open>Stepping\<close> state of the decoding loop (the loop itself,
  \<^verbatim>\<open>Execute\<close>, is not among the sources).  Each iteration obtains logits from the
  subgraph and generates the next token; a failing step ends the run with its status.
  The logits and the step counter of each iteration are given as a list.
\<close>

fun Stepping ::
  "('l, 'sc, 'p, 'lp) GreedySearchBase \<Rightarrow> ('l \<times> int) list \<Rightarrow> 'sc StepVars \<Rightarrow>
   (Status \<times> ('l, 'sc, 'p, 'lp) GreedySearchBase \<times> 'sc StepVars) option" where
  "Stepping g [] v = Some (OK, g, v)"
| "Stepping g ((logits, counter) # rest) v =
     (case GenerateNextToken g logits v counter of
        None \<Rightarrow> None
      | Some (st, g', v') \<Rightarrow> if IsOK st then Stepping g' rest v' else Some (st, g', v'))"

section \<open>The sampling kernel (\<^verbatim>\<open>contrib_ops/cpu/transformers/sampling.cc\<close>)\<close>

text \<open>
  The two numeric element types the kernel instantiates the search with.
\<close>

datatype ElemType = Float | MLFloat16

text \<open>
  Device functions are \<^verbatim>\<open>std::function\<close> values; an empty one is \<open>None\<close>.  The functions
  of \<^verbatim>\<open>GenerationCpuDeviceHelper\<close> are named by constructors (the templates with their
  element type); \<open>Custom\<close> is a function installed by another execution provider.
\<close>

datatype DeviceFunc =
    CreateGptInputs
  | AddToFeeds
  | TopK
  | GreedySearchProcessLogits ElemType
  | InitGreedyState ElemType
  | DeviceCopy ElemType
  | UpdateGptFeeds ElemType
  | Custom nat

record GptSubgraph =
  IsOutputFloat16 :: bool

record SamplingParameters =
  model_type :: int

text \<open>
  The members of the kernel that \<^verbatim>\<open>Compute\<close> reads, named as in the class with the
  prefix \<open>kernel_\<close> in place of the trailing underscore.
\<close>

record 'p Sampling =
  kernel_parameters :: "'p SamplingParameters_scheme"
  kernel_gpt_subgraph :: GptSubgraph
  kernel_decoder_feeds_fetches_manager :: "handle option"
  kernel_cuda_stream :: "handle option"
  kernel_dumper :: "handle option"
  kernel_add_to_feeds_func :: "DeviceFunc option"
  kernel_topk_func :: "DeviceFunc option"
  kernel_process_logits_func :: "DeviceFunc option"
  kernel_process_logits_fp16_func :: "DeviceFunc option"
  kernel_init_greedy_state_func :: "DeviceFunc option"
  kernel_init_greedy_state_fp16_func :: "DeviceFunc option"
  kernel_device_copy_func :: "DeviceFunc option"
  kernel_update_gpt_feeds_func :: "DeviceFunc option"
  kernel_update_gpt_feeds_fp16_func :: "DeviceFunc option"

text \<open>
  The arguments of the constructor of \<^verbatim>\<open>GreedySearchGpt<T, SamplingParameters>\<close>, in the
  order of the initialiser list.
\<close>

record 'p GreedySearchGptArgs =
  arg_context :: OpKernelContextInternal
  arg_decoder_session_state :: handle
  arg_gpt_subgraph :: GptSubgraph
  arg_thread_pool :: "handle option"
  arg_cuda_stream :: "handle option"
  arg_cuda_dumper :: "handle option"
  arg_params :: "'p SamplingParameters_scheme"
  arg_create_inputs_func :: "DeviceFunc option"
  arg_add_to_feeds_func :: "DeviceFunc option"
  arg_topk_func :: "DeviceFunc option"
  arg_process_logits_func :: "DeviceFunc option"
  arg_init_greedy_state_func :: "DeviceFunc option"
  arg_device_copy_func :: "DeviceFunc option"
  arg_update_feeds_func :: "DeviceFunc option"

text \<open>
  The class \<^verbatim>\<open>GreedySearchGpt\<close> (\<^verbatim>\<open>greedy_search_impl_gpt.h\<close>) is not among the sources;
  its constructor and its methods \<^verbatim>\<open>Initialize\<close> and \<^verbatim>\<open>Execute\<close>, per element type, are
  parameters.  \<open>'i\<close> is the state of a search object together with everything it writes
  (the outputs of the kernel context among it).
\<close>

record ('p, 'i) GreedySearchGpt =
  construct :: "ElemType \<Rightarrow> 'p GreedySearchGptArgs \<Rightarrow> 'i"
  gpt_Initialize :: "ElemType \<Rightarrow> 'i \<Rightarrow> Status \<times> 'i"
  gpt_Execute :: "ElemType \<Rightarrow> handle \<Rightarrow> 'i \<Rightarrow> Status \<times> 'i"

text \<open>
  \<^verbatim>\<open>f ? f : g\<close> on a \<^verbatim>\<open>std::function\<close> \<open>f\<close>: \<open>f\<close> when it is not empty, else \<open>g\<close>.
\<close>

definition or_else :: "DeviceFunc option \<Rightarrow> DeviceFunc \<Rightarrow> DeviceFunc option" where
  "or_else f g = (case f of Some x \<Rightarrow> Some x | None \<Rightarrow> Some g)"

text \<open>
  The initialiser lists of the two branches of \<^verbatim>\<open>Compute\<close>.  The float branch falls back
  to the CPU helpers; the half-precision branch passes the members as they are.
\<close>

definition float_args ::
  "'p Sampling \<Rightarrow> OpKernelContextInternal \<Rightarrow> handle \<Rightarrow> handle option \<Rightarrow>
   'p SamplingParameters_scheme \<Rightarrow> 'p GreedySearchGptArgs" where
  "float_args k ctx_internal decoder_session_state thread_pool params =
     \<lparr>arg_context = ctx_internal,
      arg_decoder_session_state = decoder_session_state,
      arg_gpt_subgraph = kernel_gpt_subgraph k,
      arg_thread_pool = thread_pool,
      arg_cuda_stream = kernel_cuda_stream k,
      arg_cuda_dumper = kernel_dumper k,
      arg_params = params,
      arg_create_inputs_func = Some CreateGptInputs,
      arg_add_to_feeds_func = or_else (kernel_add_to_feeds_func k) AddToFeeds,
      arg_topk_func = or_else (kernel_topk_func k) TopK,
      arg_process_logits_func =
        or_else (kernel_process_logits_func k) (GreedySearchProcessLogits Float),
      arg_init_greedy_state_func =
        or_else (kernel_init_greedy_state_func k) (InitGreedyState Float),
      arg_device_copy_func = or_else (kernel_device_copy_func k) (DeviceCopy Float),
      arg_update_feeds_func = or_else (kernel_update_gpt_feeds_func k) (UpdateGptFeeds Float)\<rparr>"

definition fp16_args ::
  "'p Sampling \<Rightarrow> OpKernelContextInternal \<Rightarrow> handle \<Rightarrow> handle option \<Rightarrow>
   'p SamplingParameters_scheme \<Rightarrow> 'p GreedySearchGptArgs" where
  "fp16_args k ctx_internal decoder_session_state thread_pool params =
     \<lparr>arg_context = ctx_internal,
      arg_decoder_session_state = decoder_session_state,
      arg_gpt_subgraph = kernel_gpt_subgraph k,
      arg_thread_pool = thread_pool,
      arg_cuda_stream = kernel_cuda_stream k,
      arg_cuda_dumper = kernel_dumper k,
      arg_params = params,
      arg_create_inputs_func = Some CreateGptInputs,
      arg_add_to_feeds_func = or_else (kernel_add_to_feeds_func k) AddToFeeds,
      arg_topk_func = or_else (kernel_topk_func k) TopK,
      arg_process_logits_func = kernel_process_logits_fp16_func k,
      arg_init_greedy_state_func = kernel_init_greedy_state_fp16_func k,
      arg_device_copy_func = kernel_device_copy_func k,
      arg_update_feeds_func = kernel_update_gpt_feeds_fp16_func k\<rparr>"

text \<open>
  \<^verbatim>\<open>Sampling::Compute\<close>.  \<^verbatim>\<open>ORT_ENFORCE\<close> throws when its condition is false; the outcome
  is either the exception or the returned status.  The second component is the search
  object as the call leaves it, \<open>None\<close> when none was constructed.
\<close>

datatype Outcome = Threw string | Returned Status

definition Compute ::
  "('p, 'i) GreedySearchGpt \<Rightarrow> 'p Sampling \<Rightarrow> OpKernelContextInternal \<Rightarrow> Outcome \<times> 'i option" where
  "Compute cls k ctx =
     (let ctx_internal = ctx in
      case SubgraphSessionState ctx_internal ''decoder'' of
        None \<Rightarrow> (Threw ''Subgraph SessionState was not found for 'decoder' attribute.'', None)
      | Some decoder_session_state \<Rightarrow>
         (case kernel_decoder_feeds_fetches_manager k of
            None \<Rightarrow>
              (Threw ''CreateFeedsFetchesManager must be called prior to execution of graph.'',
               None)
          | Some ffm \<Rightarrow>
             (let thread_pool = GetOperatorThreadPool ctx;
                  params = kernel_parameters k
              in if model_type (kernel_parameters k) = 0
                 then (if \<not> IsOutputFloat16 (kernel_gpt_subgraph k)
                       then (let impl = construct cls Float
                                    (float_args k ctx_internal decoder_session_state thread_pool params)
                             in case gpt_Initialize cls Float impl of
                                  (st, impl1) \<Rightarrow>
                                    if \<not> IsOK st then (Returned st, Some impl1)
                                    else (case gpt_Execute cls Float ffm impl1 of
                                            (st', impl2) \<Rightarrow> (Returned st', Some impl2)))
                       else (let impl = construct cls MLFloat16
                                    (fp16_args k ctx_internal decoder_session_state thread_pool params)
                             in case gpt_Initialize cls MLFloat16 impl of
                                  (st, impl1) \<Rightarrow>
                                    if \<not> IsOK st then (Returned st, Some impl1)
                                    else (case gpt_Execute cls MLFloat16 ffm impl1 of
                                            (st', impl2) \<Rightarrow> (Returned st', Some impl2))))
                 else (Returned OK, None))))"

text \<open>
  The specification's reading of the kernel: one decoding loop, generic in the element
  type, that is initialised and then executed.
\<close>

definition generic_search ::
  "('p, 'i) GreedySearchGpt \<Rightarrow> ElemType \<Rightarrow> 'p GreedySearchGptArgs \<Rightarrow> handle \<Rightarrow> Outcome \<times> 'i option" where
  "generic_search cls T args ffm =
     (case gpt_Initialize cls T (construct cls T args) of
        (st, impl1) \<Rightarrow>
          if st = OK then (case gpt_Execute cls T ffm impl1 of
                             (st', impl2) \<Rightarrow> (Returned st', Some impl2))
          else (Returned st, Some impl1))"

text \<open>
  The element type and the constructor arguments of the branch that \<^verbatim>\<open>Compute\<close> takes for
  a GPT-2 model.
\<close>

definition taken_type :: "'p Sampling \<Rightarrow> ElemType" where
  "taken_type k = (if IsOutputFloat16 (kernel_gpt_subgraph k) then MLFloat16 else Float)"

definition taken_args ::
  "'p Sampling \<Rightarrow> OpKernelContextInternal \<Rightarrow> handle \<Rightarrow> 'p GreedySearchGptArgs" where
  "taken_args k ctx decoder_session_state =
     (if IsOutputFloat16 (kernel_gpt_subgraph k)
      then fp16_args k ctx decoder_session_state (GetOperatorThreadPool ctx) (kernel_parameters k)
      else float_args k ctx decoder_session_state (GetOperatorThreadPool ctx) (kernel_parameters k))"

section \<open>The specification's vocabulary for validation\<close>

text \<open>
  The specification's well-formed inputs: the prompt tensor is two-dimensional,
  \<open>max_length\<close> is present and a scalar, and \<open>min_length\<close>, if present, is a scalar.
\<close>

definition well_formed_inputs :: "(TensorShape \<Rightarrow> bool) \<Rightarrow> OpKernelContextInternal \<Rightarrow> bool" where
  "well_formed_inputs IsScalar ctx =
     ((case Input ctx 1 of None \<Rightarrow> False | Some shape \<Rightarrow> IsScalar shape) \<and>
      (case Input ctx 2 of None \<Rightarrow> True | Some shape \<Rightarrow> IsScalar shape) \<and>
      length (input_ids ctx) = 2)"

text \<open>
  A condition names a shape when it is an error whose message carries that shape.
\<close>

definition names_shape :: "Status \<Rightarrow> TensorShape \<Rightarrow> bool" where
  "names_shape st shape = (case st of OK \<Rightarrow> False | Error _ _ args \<Rightarrow> Shape shape \<in> set args)"

text \<open>
  The length property of the store: every unfinished slot holds exactly \<open>n\<close> tokens.
\<close>

definition unfinished_length :: "nat \<Rightarrow> Sequences \<Rightarrow> bool" where
  "unfinished_length n S =
     (\<forall>i \<in> set [0..<length (seqs S)]. \<not> finished S ! i \<longrightarrow> length (seqs S ! i) = n)"

section \<open>Concrete inputs\<close>

text \<open>
  A kernel context whose allocator is available, with the given prompt shape and the given
  optional inputs 1 (\<open>max_length\<close>) and 2 (\<open>min_length\<close>); a scalar test that accepts the
  shapes \<open>{}\<close> and \<open>{1}\<close>; and a CPU search object whose parameters ask for
  \<open>no_repeat_ngram_size = 3\<close> and for scores.
\<close>

definition example_context ::
  "TensorShape \<Rightarrow> TensorShape option \<Rightarrow> TensorShape option \<Rightarrow> OpKernelContextInternal" where
  "example_context dims max_length_tensor min_length_tensor =
     \<lparr>GetTempSpaceAllocator = (\<lambda>p. (OK, Some 7)),
      input_ids = dims,
      Input = (\<lambda>i. if i = 1 then max_length_tensor else if i = 2 then min_length_tensor else None),
      SubgraphSessionState = (\<lambda>name. if name = ''decoder'' then Some 1 else None),
      GetOperatorThreadPool = None\<rparr>"

definition example_IsScalar :: "TensorShape \<Rightarrow> bool" where
  "example_IsScalar dims = (dims = [] \<or> dims = [1])"

definition example_search ::
  "OpKernelContextInternal \<Rightarrow> (unit, nat, unit, int) GreedySearchBase" where
  "example_search ctx =
     \<lparr>op_context = ctx,
      cuda_stream = None,
      parameters = \<lparr>output_scores = True, no_repeat_ngram_size = 3\<rparr>,
      logits_processors = 3,
      beam_scorer = \<lparr>GetNextScores = [], GetNextTokens = [], GetNextIndices = []\<rparr>,
      temp_space_allocator = None,
      process_logits_func = (\<lambda>logits objs allocator params counter stream. (OK, objs)),
      device_copy_func = (\<lambda>target source stream direction. (OK, source))\<rparr>"

text \<open>
  A scorer that has selected token 9 for the single beam, extending beam 0; a search
  object whose process-logits function installs that selection and returns the given
  status, and whose device-copy function returns the second status; a store of one
  slot, unfinished, with room for ten tokens; and the caller's variables before the
  first step, holding the prompt \<open>[5, 7]\<close>, and after two steps.
\<close>

definition example_scorer :: "nat BeamScorer" where
  "example_scorer = \<lparr>GetNextScores = [1], GetNextTokens = [9], GetNextIndices = [0]\<rparr>"

definition example_stepper ::
  "Status \<Rightarrow> Status \<Rightarrow> (unit, nat, unit, int) GreedySearchBase" where
  "example_stepper logits_status copy_status =
     (example_search (example_context [1, 2] (Some []) None))
       \<lparr>process_logits_func :=
          (\<lambda>logits objs allocator params counter stream.
              (logits_status, objs\<lparr>lo_beam_scorer := example_scorer\<rparr>)),
        device_copy_func := (\<lambda>target source stream direction. (copy_status, source))\<rparr>"

definition example_sequences :: "int list list \<Rightarrow> Sequences" where
  "example_sequences rows =
     \<lparr>seqs = rows, finished = [False], max_length = 10, eos_token_id = 0\<rparr>"

definition example_vars :: "nat StepVars" where
  "example_vars =
     \<lparr>beam_next_tokens = [], beam_indices = [],
      beam_state = \<lparr>beam_scores = [0]\<rparr>,
      cpu_state = \<lparr>sequences = example_sequences [[5, 7]]\<rparr>\<rparr>"

definition example_result :: "nat StepVars" where
  "example_result =
     \<lparr>beam_next_tokens = [9], beam_indices = [0],
      beam_state = \<lparr>beam_scores = [1]\<rparr>,
      cpu_state = \<lparr>sequences = example_sequences [[5, 7, 9, 9]]\<rparr>\<rparr>"



text \<open>
  A search class that records, in the state of the object, which of its operations ran
  and for which element type, with \<^verbatim>\<open>Initialize\<close> returning the given status; and a
  kernel with the given model type and subgraph output type.
\<close>

definition example_class :: "Status \<Rightarrow> (unit, (string \<times> ElemType) list) GreedySearchGpt" where
  "example_class init_status =
     \<lparr>construct = (\<lambda>T args. [(''construct'', T)]),
      gpt_Initialize = (\<lambda>T impl. (init_status, impl @ [(''Initialize'', T)])),
      gpt_Execute = (\<lambda>T ffm impl. (OK, impl @ [(''Execute'', T)]))\<rparr>"

definition example_kernel :: "int \<Rightarrow> bool \<Rightarrow> unit Sampling" where
  "example_kernel mt fp16 =
     \<lparr>kernel_parameters = \<lparr>model_type = mt\<rparr>,
      kernel_gpt_subgraph = \<lparr>IsOutputFloat16 = fp16\<rparr>,
      kernel_decoder_feeds_fetches_manager = Some 2,
      kernel_cuda_stream = None,
      kernel_dumper = None,
      kernel_add_to_feeds_func = None,
      kernel_topk_func = None,
      kernel_process_logits_func = None,
      kernel_process_logits_fp16_func = Some (Custom 0),
      kernel_init_greedy_state_func = None,
      kernel_init_greedy_state_fp16_func = Some (Custom 1),
      kernel_device_copy_func = None,
      kernel_update_gpt_feeds_func = None,
      kernel_update_gpt_feeds_fp16_func = Some (Custom 2)\<rparr>"

section \<open>Properties of the data transfer\<close>

lemma memcpy_inside: "i < bytes \<Longrightarrow> memcpy d s bytes m (d + i) = m (s + i)"
  by (simp add: memcpy_def)

lemma memcpy_outside: "a < d \<or> d + bytes \<le> a \<Longrightarrow> memcpy d s bytes m a = m a"
  by (auto simp: memcpy_def)

text \<open>
  Claim C6.  \<^verbatim>\<open>CopyTensor\<close> picks its path from the device types of the two tensors
  alone.  When the destination is on the GPU it makes the upload call (and writes no
  memory); otherwise, when the source is on the GPU, it makes the download call (and
  writes no memory); otherwise it makes no JavaScript call and copies
  \<^verbatim>\<open>src.SizeInBytes()\<close> bytes from the source buffer to the destination buffer, leaving
  every address outside the destination range as it was.
\<close>

theorem CopyTensor_path:
  "(Type (Location_device dst) = GPU \<longrightarrow>
      snd (CopyTensor src dst h) = h\<lparr>js_calls := js_calls h @ [jsepUpload]\<rparr>) \<and>
   (Type (Location_device dst) \<noteq> GPU \<and> Type (Location_device src) = GPU \<longrightarrow>
      snd (CopyTensor src dst h) = h\<lparr>js_calls := js_calls h @ [jsepDownload]\<rparr>) \<and>
   (Type (Location_device dst) \<noteq> GPU \<and> Type (Location_device src) \<noteq> GPU \<longrightarrow>
      js_calls (snd (CopyTensor src dst h)) = js_calls h \<and>
      (\<forall>i < SizeInBytes src.
          mem (snd (CopyTensor src dst h)) (DataRaw dst + i) = mem h (DataRaw src + i)) \<and>
      (\<forall>a. a < DataRaw dst \<or> DataRaw dst + SizeInBytes src \<le> a \<longrightarrow>
          mem (snd (CopyTensor src dst h)) a = mem h a))"
  by (simp add: CopyTensor_def EM_ASM_def Let_def memcpy_inside memcpy_outside)

text \<open>
  The three paths at concrete tensors: a CPU source with a GPU destination, a GPU source
  with a CPU destination, and two CPU tensors of four bytes at addresses 0 and 16.
\<close>

theorem CopyTensor_path_witness:
  "snd (CopyTensor \<lparr>SizeInBytes = 4, DataRaw = 0, Location_device = \<lparr>Type = CPU\<rparr>\<rparr>
                   \<lparr>SizeInBytes = 4, DataRaw = 16, Location_device = \<lparr>Type = GPU\<rparr>\<rparr>
                   \<lparr>mem = (\<lambda>a. of_nat a), js_calls = []\<rparr>)
     = \<lparr>mem = (\<lambda>a. of_nat a), js_calls = [jsepUpload]\<rparr> \<and>
   snd (CopyTensor \<lparr>SizeInBytes = 4, DataRaw = 0, Location_device = \<lparr>Type = GPU\<rparr>\<rparr>
                   \<lparr>SizeInBytes = 4, DataRaw = 16, Location_device = \<lparr>Type = CPU\<rparr>\<rparr>
                   \<lparr>mem = (\<lambda>a. of_nat a), js_calls = []\<rparr>)
     = \<lparr>mem = (\<lambda>a. of_nat a), js_calls = [jsepDownload]\<rparr> \<and>
   mem (snd (CopyTensor \<lparr>SizeInBytes = 4, DataRaw = 0, Location_device = \<lparr>Type = CPU\<rparr>\<rparr>
                   \<lparr>SizeInBytes = 4, DataRaw = 16, Location_device = \<lparr>Type = CPU\<rparr>\<rparr>
                   \<lparr>mem = (\<lambda>a. of_nat a), js_calls = []\<rparr>)) 19 = 3 \<and>
   mem (snd (CopyTensor \<lparr>SizeInBytes = 4, DataRaw = 0, Location_device = \<lparr>Type = CPU\<rparr>\<rparr>
                   \<lparr>SizeInBytes = 4, DataRaw = 16, Location_device = \<lparr>Type = CPU\<rparr>\<rparr>
                   \<lparr>mem = (\<lambda>a. of_nat a), js_calls = []\<rparr>)) 20 = 20"
proof -
  let ?h = "\<lparr>mem = (\<lambda>a. of_nat a), js_calls = []\<rparr>"
  let ?cpu0 = "\<lparr>SizeInBytes = 4, DataRaw = 0, Location_device = \<lparr>Type = CPU\<rparr>\<rparr>"
  let ?gpu0 = "\<lparr>SizeInBytes = 4, DataRaw = 0, Location_device = \<lparr>Type = GPU\<rparr>\<rparr>"
  let ?cpu16 = "\<lparr>SizeInBytes = 4, DataRaw = 16, Location_device = \<lparr>Type = CPU\<rparr>\<rparr>"
  let ?gpu16 = "\<lparr>SizeInBytes = 4, DataRaw = 16, Location_device = \<lparr>Type = GPU\<rparr>\<rparr>"
  have up: "snd (CopyTensor ?cpu0 ?gpu16 ?h) = \<lparr>mem = (\<lambda>a. of_nat a), js_calls = [jsepUpload]\<rparr>"
    using CopyTensor_path [of ?gpu16 ?cpu0 ?h] by simp
  have down: "snd (CopyTensor ?gpu0 ?cpu16 ?h) = \<lparr>mem = (\<lambda>a. of_nat a), js_calls = [jsepDownload]\<rparr>"
    using CopyTensor_path [of ?cpu16 ?gpu0 ?h] by simp
  have inside: "\<forall>i<4. mem (snd (CopyTensor ?cpu0 ?cpu16 ?h)) (16 + i) = of_nat i"
    using CopyTensor_path [of ?cpu16 ?cpu0 ?h] by simp
  have outside: "\<forall>a. a < 16 \<or> 20 \<le> a \<longrightarrow> mem (snd (CopyTensor ?cpu0 ?cpu16 ?h)) a = of_nat a"
    using CopyTensor_path [of ?cpu16 ?cpu0 ?h] by simp
  from inside have "mem (snd (CopyTensor ?cpu0 ?cpu16 ?h)) (16 + 3) = of_nat 3"
    by (rule allE [where x = 3]) simp
  moreover from outside have "mem (snd (CopyTensor ?cpu0 ?cpu16 ?h)) 20 = of_nat 20"
    by (rule allE [where x = 20]) simp
  ultimately show ?thesis using up down by simp
qed

text \<open>
  Claim C10.  \<^verbatim>\<open>CopyTensor\<close> returns \<^verbatim>\<open>Status::OK\<close> for every source tensor, destination
  tensor and heap, on the upload path and on the download path as on the direct copy: no
  failure is ever reported to the caller.
\<close>

theorem CopyTensor_always_OK: "fst (CopyTensor src dst h) = OK"
  by (simp add: CopyTensor_def Let_def)

text \<open>
  Claim C7, as stated, fails: for a source device and a destination device that are both
  CPU, \<^verbatim>\<open>CanCopy\<close> returns false.
\<close>

theorem CanCopy_CPU_CPU_counterexample:
  "CanCopy \<lparr>Type = CPU\<rparr> \<lparr>Type = CPU\<rparr> = False"
  by (simp add: CanCopy_def)

text \<open>
  Claim C7, amended.  \<^verbatim>\<open>CanCopy\<close> accepts exactly the two cross-device pairs, CPU to GPU
  and GPU to CPU.  A copy between two devices of the same type, two CPU devices among
  them, is refused at this interface; the direct CPU-to-CPU copy exists only as the last
  branch inside \<^verbatim>\<open>CopyTensor\<close>.
\<close>

theorem CanCopy_cross_device_only:
  "(CanCopy src_device dst_device \<longleftrightarrow>
      (Type src_device = CPU \<and> Type dst_device = GPU) \<or>
      (Type src_device = GPU \<and> Type dst_device = CPU)) \<and>
   (Type src_device = Type dst_device \<longrightarrow> \<not> CanCopy src_device dst_device)"
  by (auto simp: CanCopy_def)

theorem CanCopy_cross_device_only_witness:
  "Type \<lparr>Type = CPU\<rparr> = Type \<lparr>Type = CPU\<rparr> \<and> \<not> CanCopy \<lparr>Type = CPU\<rparr> \<lparr>Type = CPU\<rparr> \<and>
   CanCopy \<lparr>Type = CPU\<rparr> \<lparr>Type = GPU\<rparr> \<and> CanCopy \<lparr>Type = GPU\<rparr> \<lparr>Type = CPU\<rparr>"
  using CanCopy_cross_device_only [of "\<lparr>Type = CPU\<rparr>" "\<lparr>Type = CPU\<rparr>"]
        CanCopy_cross_device_only [of "\<lparr>Type = CPU\<rparr>" "\<lparr>Type = GPU\<rparr>"]
        CanCopy_cross_device_only [of "\<lparr>Type = GPU\<rparr>" "\<lparr>Type = CPU\<rparr>"]
  by simp

section \<open>Properties of validation and initialisation\<close>

text \<open>
  Once the allocator is obtained, the status of \<^verbatim>\<open>Initialize\<close> is that of the first failing
  check, in the order \<open>max_length\<close>, \<open>min_length\<close>, \<^verbatim>\<open>CheckInputs\<close>.
\<close>

lemma Initialize_status:
  assumes "fst (GetTempSpaceAllocator (op_context g) (temp_space_allocator g)) = OK"
  shows "fst (Initialize IsScalar Init g) =
     (case CHECK_SCALAR_INPUT IsScalar (op_context g) ''max_length'' 1 True of
        Some e \<Rightarrow> e
      | None \<Rightarrow> (case CHECK_SCALAR_INPUT IsScalar (op_context g) ''min_length'' 2 False of
                   Some e \<Rightarrow> e
                 | None \<Rightarrow> CheckInputs (op_context g)))"
proof -
  obtain a where "GetTempSpaceAllocator (op_context g) (temp_space_allocator g) = (OK, a)"
    using assms by (cases "GetTempSpaceAllocator (op_context g) (temp_space_allocator g)") simp
  then show ?thesis
    by (simp add: Initialize_def Let_def IsOK_def split: option.splits)
qed


lemma ex_alloc: "fst (GetTempSpaceAllocator (op_context (example_search (example_context d a b)))
           (temp_space_allocator (example_search (example_context d a b)))) = OK"
  by (simp add: example_search_def example_context_def)

lemma names_shape_scalar_error:
  "names_shape (Error ONNXRUNTIME FAIL [Text msg, Shape shape]) shape"
  by (simp add: names_shape_def)

text \<open>
  Claim C2, as stated, fails for the prompt tensor: for \<open>input_ids\<close> of shape \<open>{2, 3, 4}\<close>
  the condition returned by \<^verbatim>\<open>CheckInputs\<close> carries the number of dimensions, 3, and not
  the shape.
\<close>

theorem CheckInputs_shape_counterexample:
  "CheckInputs (example_context [2, 3, 4] None None) =
     Error ONNXRUNTIME INVALID_ARGUMENT
       [Text ''Input 'input_ids' is expected to have 2 dimensions, got '', Size 3] \<and>
   \<not> names_shape (CheckInputs (example_context [2, 3, 4] None None)) [2, 3, 4]"
  by (simp add: CheckInputs_def example_context_def ORT_MAKE_STATUS_def names_shape_def)

text \<open>
  Claim C2, amended.  If \<open>input_ids\<close> does not have exactly 2 dimensions, \<^verbatim>\<open>CheckInputs\<close>
  returns an \<^verbatim>\<open>INVALID_ARGUMENT\<close> condition naming the input and its actual number of
  dimensions, and otherwise OK.  Once the temp-space allocator is obtained: if
  \<open>max_length\<close> is absent, \<^verbatim>\<open>Initialize\<close> fails with the condition that the input is
  required; if \<open>max_length\<close> is present and not a scalar, or \<open>max_length\<close> is a scalar and
  \<open>min_length\<close> is present and not a scalar, \<^verbatim>\<open>Initialize\<close> fails with a condition naming
  that input and its actual shape; and \<^verbatim>\<open>Initialize\<close> returns success if and only if the
  inputs are well-formed.
\<close>

theorem Initialize_validation:
  "(length (input_ids ctx) \<noteq> 2 \<longrightarrow>
      CheckInputs ctx = Error ONNXRUNTIME INVALID_ARGUMENT
        [Text ''Input 'input_ids' is expected to have 2 dimensions, got '',
         Size (length (input_ids ctx))]) \<and>
   (length (input_ids ctx) = 2 \<longrightarrow> CheckInputs ctx = OK) \<and>
   (fst (GetTempSpaceAllocator (op_context g) (temp_space_allocator g)) = OK \<longrightarrow>
      (Input (op_context g) 1 = None \<longrightarrow>
         fst (Initialize IsScalar Init g) =
           Error ONNXRUNTIME FAIL [Text '''BeamSearch' input max_length is required'']) \<and>
      (\<forall>shape. Input (op_context g) 1 = Some shape \<and> \<not> IsScalar shape \<longrightarrow>
         fst (Initialize IsScalar Init g) =
           Error ONNXRUNTIME FAIL
             [Text '''BeamSearch' input max_length should be a scalar. Got shape of '',
              Shape shape]) \<and>
      (\<forall>shape shape'. Input (op_context g) 1 = Some shape \<and> IsScalar shape \<and>
           Input (op_context g) 2 = Some shape' \<and> \<not> IsScalar shape' \<longrightarrow>
         fst (Initialize IsScalar Init g) =
           Error ONNXRUNTIME FAIL
             [Text '''BeamSearch' input min_length should be a scalar. Got shape of '',
              Shape shape']) \<and>
      (fst (Initialize IsScalar Init g) = OK \<longleftrightarrow> well_formed_inputs IsScalar (op_context g)))"
  apply (intro conjI impI allI)
  apply (simp_all add: Initialize_status)
  apply (simp_all add: CheckInputs_def CHECK_SCALAR_INPUT_def ORT_MAKE_STATUS_def well_formed_inputs_def Let_def split: option.splits)
  done

text \<open>
  Each case at a concrete context: a three-dimensional prompt, a well-shaped prompt, a
  missing \<open>max_length\<close>, a \<open>max_length\<close> of shape \<open>{2}\<close>, a \<open>min_length\<close> of shape
  \<open>{3, 3}\<close>, and well-formed inputs.
\<close>

theorem Initialize_validation_witness:
  "CheckInputs (example_context [2, 3, 4] None None) =
     Error ONNXRUNTIME INVALID_ARGUMENT
       [Text ''Input 'input_ids' is expected to have 2 dimensions, got '', Size 3] \<and>
   CheckInputs (example_context [2, 5] None None) = OK \<and>
   fst (Initialize example_IsScalar (\<lambda>p lp. no_repeat_ngram_size p)
          (example_search (example_context [2, 5] None None))) =
     Error ONNXRUNTIME FAIL [Text '''BeamSearch' input max_length is required''] \<and>
   fst (Initialize example_IsScalar (\<lambda>p lp. no_repeat_ngram_size p)
          (example_search (example_context [2, 5] (Some [2]) None))) =
     Error ONNXRUNTIME FAIL
       [Text '''BeamSearch' input max_length should be a scalar. Got shape of '', Shape [2]] \<and>
   fst (Initialize example_IsScalar (\<lambda>p lp. no_repeat_ngram_size p)
          (example_search (example_context [2, 5] (Some []) (Some [3, 3])))) =
     Error ONNXRUNTIME FAIL
       [Text '''BeamSearch' input min_length should be a scalar. Got shape of '', Shape [3, 3]] \<and>
   fst (Initialize example_IsScalar (\<lambda>p lp. no_repeat_ngram_size p)
          (example_search (example_context [2, 5] (Some []) None))) = OK"
proof -
  let ?I = "\<lambda>p lp. no_repeat_ngram_size (p :: BeamSearchParameters)"
  have a: "CheckInputs (example_context [2, 3, 4] None None) =
     Error ONNXRUNTIME INVALID_ARGUMENT
       [Text ''Input 'input_ids' is expected to have 2 dimensions, got '', Size 3]"
    using Initialize_validation [of "example_context [2, 3, 4] None None"
                         "example_search (example_context [2, 5] None None)" example_IsScalar ?I]
    by (simp add: example_context_def)
  have a': "CheckInputs (example_context [2, 5] None None) = OK"
    using Initialize_validation [of "example_context [2, 5] None None"
                         "example_search (example_context [2, 5] None None)" example_IsScalar ?I]
    by (simp add: example_context_def)
  have b: "fst (Initialize example_IsScalar ?I (example_search (example_context [2, 5] None None))) =
     Error ONNXRUNTIME FAIL [Text '''BeamSearch' input max_length is required'']"
    using Initialize_validation [of "example_context [2, 5] None None"
                         "example_search (example_context [2, 5] None None)" example_IsScalar ?I]
          ex_alloc [of "[2, 5]" None None]
    by (simp add: example_context_def example_search_def)
  have c1: "fst (Initialize example_IsScalar ?I (example_search (example_context [2, 5] (Some [2]) None))) =
     Error ONNXRUNTIME FAIL
       [Text '''BeamSearch' input max_length should be a scalar. Got shape of '', Shape [2]]"
    using Initialize_validation [of "example_context [2, 5] None None"
                         "example_search (example_context [2, 5] (Some [2]) None)" example_IsScalar ?I]
          ex_alloc [of "[2, 5]" "Some [2]" None]
    by (simp add: example_context_def example_search_def example_IsScalar_def)
  have c2: "fst (Initialize example_IsScalar ?I
                 (example_search (example_context [2, 5] (Some []) (Some [3, 3])))) =
     Error ONNXRUNTIME FAIL
       [Text '''BeamSearch' input min_length should be a scalar. Got shape of '', Shape [3, 3]]"
    using Initialize_validation [of "example_context [2, 5] None None"
                         "example_search (example_context [2, 5] (Some []) (Some [3, 3]))"
                         example_IsScalar ?I]
          ex_alloc [of "[2, 5]" "Some []" "Some [3, 3]"]
    by (simp add: example_context_def example_search_def example_IsScalar_def)
  have d: "fst (Initialize example_IsScalar ?I (example_search (example_context [2, 5] (Some []) None))) = OK"
    using Initialize_validation [of "example_context [2, 5] None None"
                         "example_search (example_context [2, 5] (Some []) None)" example_IsScalar ?I]
          ex_alloc [of "[2, 5]" "Some []" None]
    by (simp add: example_context_def example_search_def example_IsScalar_def well_formed_inputs_def)
  from a a' b c1 c2 d show ?thesis by simp
qed

section \<open>Properties of token generation\<close>

text \<open>
  What a successful \<open>append\<close> does to each slot.
\<close>

lemma Append_Some:
  assumes "AppendNextTokenToSequences idx toks S = Some S'"
  shows "append_contract idx toks S"
    and "seqs S' = map (\<lambda>i. fst (append_slot idx toks S i)) [0..<length (seqs S)]"
    and "finished S' = map (\<lambda>i. snd (append_slot idx toks S i)) [0..<length (seqs S)]"
  using assms
  by (auto simp: AppendNextTokenToSequences_def Let_def comp_def split: if_splits)

lemma Append_rows:
  assumes "AppendNextTokenToSequences idx toks S = Some S'"
  shows "length (seqs S') = length (seqs S)"
    and "length (finished S') = length (seqs S)"
    and "i < length (seqs S) \<Longrightarrow> finished S ! i \<Longrightarrow> seqs S' ! i = seqs S ! i \<and> finished S' ! i"
    and "i < length (seqs S) \<Longrightarrow> \<not> finished S ! i \<Longrightarrow>
           seqs S' ! i = seqs S ! nat (idx ! i) @ [toks ! i] \<and>
           nat (idx ! i) < length (seqs S) \<and> \<not> finished S ! nat (idx ! i)"
  using Append_Some [OF assms]
  by (auto simp: append_slot_def append_contract_def Let_def)

lemma Append_unfinished_length:
  assumes app: "AppendNextTokenToSequences idx toks S = Some S'"
    and inv: "unfinished_length n S"
  shows "unfinished_length (Suc n) S'"
  unfolding unfinished_length_def
proof (intro ballI impI)
  fix i assume i: "i \<in> set [0..<length (seqs S')]" and unf: "\<not> finished S' ! i"
  from i Append_rows(1) [OF app] have iS: "i < length (seqs S)" by simp
  have nf: "\<not> finished S ! i"
    using Append_rows(3) [OF app iS] unf by blast
  from Append_rows(4) [OF app iS nf]
  have row: "seqs S' ! i = seqs S ! nat (idx ! i) @ [toks ! i]"
    and p: "nat (idx ! i) < length (seqs S)" and pf: "\<not> finished S ! nat (idx ! i)"
    by simp_all
  from inv p pf have "length (seqs S ! nat (idx ! i)) = n"
    by (simp add: unfinished_length_def)
  with row show "length (seqs S' ! i) = Suc n" by simp
qed

lemma GenerateNextToken_OK:
  assumes "GenerateNextToken g logits v counter = Some (OK, g1, v1)"
  shows "\<exists>objs. process_logits_func g logits
             \<lparr>lo_beam_state = beam_state v, lo_cpu_state = cpu_state v,
              lo_logits_processors = logits_processors g, lo_beam_scorer = beam_scorer g\<rparr>
             (temp_space_allocator g) (parameters g) counter (cuda_stream g) = (OK, objs) \<and>
           AppendNextTokenToSequences (beam_indices v1) (beam_next_tokens v1)
             (sequences (lo_cpu_state objs)) = Some (sequences (cpu_state v1))"
    and "process_logits_func g1 = process_logits_func g"
  using assms
  by (auto simp: GenerateNextToken_def ProcessLogits_def Let_def IsOK_def
           split: prod.splits option.splits if_splits)

lemma GenerateNextToken_step:
  assumes frame: "\<And>l objs a p c s.
      sequences (lo_cpu_state (snd (process_logits_func g l objs a p c s))) =
      sequences (lo_cpu_state objs)"
    and ok: "GenerateNextToken g logits v counter = Some (OK, g1, v1)"
  shows "AppendNextTokenToSequences (beam_indices v1) (beam_next_tokens v1)
           (sequences (cpu_state v)) = Some (sequences (cpu_state v1))"
proof -
  from GenerateNextToken_OK(1) [OF ok] obtain objs where
    pl: "process_logits_func g logits
             \<lparr>lo_beam_state = beam_state v, lo_cpu_state = cpu_state v,
              lo_logits_processors = logits_processors g, lo_beam_scorer = beam_scorer g\<rparr>
             (temp_space_allocator g) (parameters g) counter (cuda_stream g) = (OK, objs)"
    and app: "AppendNextTokenToSequences (beam_indices v1) (beam_next_tokens v1)
             (sequences (lo_cpu_state objs)) = Some (sequences (cpu_state v1))"
    by blast
  from frame [of logits "\<lparr>lo_beam_state = beam_state v, lo_cpu_state = cpu_state v,
              lo_logits_processors = logits_processors g, lo_beam_scorer = beam_scorer g\<rparr>"
              "temp_space_allocator g" "parameters g" counter "cuda_stream g"] pl
  have "sequences (lo_cpu_state objs) = sequences (cpu_state v)" by simp
  with app show ?thesis by simp
qed

lemma Stepping_unfinished_length:
  assumes "\<And>l objs a p c s.
      sequences (lo_cpu_state (snd (process_logits_func g l objs a p c s))) =
      sequences (lo_cpu_state objs)"
    and "unfinished_length n (sequences (cpu_state v))"
    and "Stepping g steps v = Some (OK, g', v')"
  shows "unfinished_length (n + length steps) (sequences (cpu_state v')) \<and>
         length (seqs (sequences (cpu_state v'))) = length (seqs (sequences (cpu_state v)))"
  using assms
proof (induction steps arbitrary: g v n)
  case Nil
  then show ?case by simp
next
  case (Cons step rest)
  obtain logits counter where step: "step = (logits, counter)" by (cases step)
  from Cons.prems(3) step obtain st g1 v1 where
    gen: "GenerateNextToken g logits v counter = Some (st, g1, v1)"
    by (auto split: option.splits)
  with Cons.prems(3) step have st: "st = OK" and rest: "Stepping g1 rest v1 = Some (OK, g', v')"
    by (auto simp: IsOK_def split: if_splits)
  from gen st have ok: "GenerateNextToken g logits v counter = Some (OK, g1, v1)" by simp
  have app: "AppendNextTokenToSequences (beam_indices v1) (beam_next_tokens v1)
           (sequences (cpu_state v)) = Some (sequences (cpu_state v1))"
    by (rule GenerateNextToken_step [OF Cons.prems(1) ok])
  have inv1: "unfinished_length (Suc n) (sequences (cpu_state v1))"
    by (rule Append_unfinished_length [OF app Cons.prems(2)])
  have same: "process_logits_func g1 = process_logits_func g"
    by (rule GenerateNextToken_OK(2) [OF ok])
  have frame1: "\<And>l objs a p c s.
      sequences (lo_cpu_state (snd (process_logits_func g1 l objs a p c s))) =
      sequences (lo_cpu_state objs)"
    using Cons.prems(1) by (simp add: same)
  from Cons.IH [OF frame1 inv1 rest] Append_rows(1) [OF app]
  show ?case by simp
qed

lemma unfinished_length_iff:
  "unfinished_length n S \<longleftrightarrow> (\<forall>i < length (seqs S). \<not> finished S ! i \<longrightarrow> length (seqs S ! i) = n)"
  by (auto simp: unfinished_length_def)

text \<open>
  Claim C1.  Provided the process-logits device function does not write the stored
  sequences: a successful call of \<^verbatim>\<open>GenerateNextToken\<close> keeps the number of slots and gives
  every unfinished slot the history of the slot named by its beam index followed by
  exactly one token, its next token; and when every unfinished slot starts with
  \<open>prompt_length\<close> tokens, after a run of \<open>N\<close> successful steps every slot that is still
  unfinished holds \<open>prompt_length + N\<close> tokens.
\<close>

theorem GenerateNextToken_appends_one_token:
  assumes frame: "\<And>l objs a p c s.
      sequences (lo_cpu_state (snd (process_logits_func g l objs a p c s))) =
      sequences (lo_cpu_state objs)"
  shows "(GenerateNextToken g logits v counter = Some (OK, g1, v1) \<longrightarrow>
            length (seqs (sequences (cpu_state v1))) = length (seqs (sequences (cpu_state v))) \<and>
            (\<forall>i < length (seqs (sequences (cpu_state v))).
                \<not> finished (sequences (cpu_state v)) ! i \<longrightarrow>
                  seqs (sequences (cpu_state v1)) ! i =
                    seqs (sequences (cpu_state v)) ! nat (beam_indices v1 ! i) @
                    [beam_next_tokens v1 ! i])) \<and>
         ((\<forall>i < length (seqs (sequences (cpu_state v))).
              \<not> finished (sequences (cpu_state v)) ! i \<longrightarrow>
                length (seqs (sequences (cpu_state v)) ! i) = prompt_length) \<and>
          Stepping g steps v = Some (OK, g', v') \<longrightarrow>
            length (seqs (sequences (cpu_state v'))) = length (seqs (sequences (cpu_state v))) \<and>
            (\<forall>i < length (seqs (sequences (cpu_state v'))).
                \<not> finished (sequences (cpu_state v')) ! i \<longrightarrow>
                  length (seqs (sequences (cpu_state v')) ! i) = prompt_length + length steps))"
proof (intro conjI impI)
  assume ok: "GenerateNextToken g logits v counter = Some (OK, g1, v1)"
  note app = GenerateNextToken_step [OF frame ok]
  show "length (seqs (sequences (cpu_state v1))) = length (seqs (sequences (cpu_state v)))"
    by (rule Append_rows(1) [OF app])
  show "\<forall>i < length (seqs (sequences (cpu_state v))).
          \<not> finished (sequences (cpu_state v)) ! i \<longrightarrow>
            seqs (sequences (cpu_state v1)) ! i =
              seqs (sequences (cpu_state v)) ! nat (beam_indices v1 ! i) @ [beam_next_tokens v1 ! i]"
    using Append_rows(4) [OF app] by blast
next
  assume run: "(\<forall>i < length (seqs (sequences (cpu_state v))).
              \<not> finished (sequences (cpu_state v)) ! i \<longrightarrow>
                length (seqs (sequences (cpu_state v)) ! i) = prompt_length) \<and>
          Stepping g steps v = Some (OK, g', v')"
  then have inv: "unfinished_length prompt_length (sequences (cpu_state v))"
    by (simp add: unfinished_length_iff)
  from Stepping_unfinished_length [OF frame inv] run
  have res: "unfinished_length (prompt_length + length steps) (sequences (cpu_state v')) \<and>
         length (seqs (sequences (cpu_state v'))) = length (seqs (sequences (cpu_state v)))"
    by blast
  from res show "length (seqs (sequences (cpu_state v'))) = length (seqs (sequences (cpu_state v)))"
    by simp
  from res show "\<forall>i < length (seqs (sequences (cpu_state v'))).
                \<not> finished (sequences (cpu_state v')) ! i \<longrightarrow>
                  length (seqs (sequences (cpu_state v')) ! i) = prompt_length + length steps"
    by (simp add: unfinished_length_iff)
qed

text \<open>
  The prompt \<open>[5, 7]\<close> with a selector that always picks token 9: after two steps the
  slot is unfinished and holds \<open>[5, 7, 9, 9]\<close>.
\<close>

lemma example_frame:
  "sequences (lo_cpu_state (snd (process_logits_func (example_stepper s1 s2) l objs a p c s))) =
   sequences (lo_cpu_state objs)"
  by (simp add: example_stepper_def example_search_def)

lemma example_run:
  "Stepping (example_stepper OK OK) [((), 0), ((), 1)] example_vars =
     Some (OK, (example_stepper OK OK)\<lparr>beam_scorer := example_scorer\<rparr>, example_result)"
  by (simp add: GenerateNextToken_def ProcessLogits_def example_stepper_def example_search_def
        example_scorer_def IsOK_def Let_def example_vars_def example_result_def
        AppendNextTokenToSequences_def append_contract_def append_slot_def example_sequences_def)

theorem GenerateNextToken_appends_one_token_witness:
  "Stepping (example_stepper OK OK) [((), 0), ((), 1)] example_vars =
     Some (OK, (example_stepper OK OK)\<lparr>beam_scorer := example_scorer\<rparr>, example_result) \<and>
   seqs (sequences (cpu_state example_vars)) = [[5, 7]] \<and>
   seqs (sequences (cpu_state example_result)) = [[5, 7, 9, 9]] \<and>
   \<not> finished (sequences (cpu_state example_result)) ! 0 \<and>
   length (seqs (sequences (cpu_state example_result)) ! 0) = 2 + length [((), 0::int), ((), 1)]"
proof -
  have prompt: "\<forall>i < length (seqs (sequences (cpu_state example_vars))).
      \<not> finished (sequences (cpu_state example_vars)) ! i \<longrightarrow>
        length (seqs (sequences (cpu_state example_vars)) ! i) = 2"
    by (simp add: example_vars_def example_sequences_def)
  from GenerateNextToken_appends_one_token
         [of "example_stepper OK OK" "()" example_vars 0
             "(example_stepper OK OK)\<lparr>beam_scorer := example_scorer\<rparr>" example_result
             2 "[((), 0), ((), 1)]" "(example_stepper OK OK)\<lparr>beam_scorer := example_scorer\<rparr>"
             example_result,
          OF example_frame] prompt example_run
  have "\<forall>i < length (seqs (sequences (cpu_state example_result))).
          \<not> finished (sequences (cpu_state example_result)) ! i \<longrightarrow>
            length (seqs (sequences (cpu_state example_result)) ! i) =
              2 + length [((), 0::int), ((), 1)]"
    by blast
  then have "length (seqs (sequences (cpu_state example_result)) ! 0) =
              2 + length [((), 0::int), ((), 1)]"
    by (simp add: example_result_def example_sequences_def)
  then show ?thesis
    using example_run by (simp add: example_vars_def example_result_def example_sequences_def)
qed

text \<open>
  Claim C4.  The status of \<^verbatim>\<open>ProcessLogits\<close> is the status of the process-logits device
  function.  When that status is an error, \<^verbatim>\<open>GenerateNextToken\<close> returns it; when it is
  OK and the device-copy function returns an error, \<^verbatim>\<open>GenerateNextToken\<close> returns that
  one.  No other error status is ever returned, and whenever an error is returned the
  caller's token and index spans are untouched and nothing has been appended: the stored
  sequences are the ones before the call, given that the process-logits function itself
  left them alone.
\<close>

theorem GenerateNextToken_propagates_errors:
  assumes pl: "ProcessLogits g logits (beam_state v) (cpu_state v) (temp_space_allocator g) counter =
                 (st1, g1, bs1, cs1)"
    and dc: "device_copy_func g1 (beam_scores bs1) (GetNextScores (beam_scorer g1))
               (cuda_stream g1) hostToDevice = (st2, target)"
    and frame: "sequences cs1 = sequences (cpu_state v)"
  shows "st1 = fst (process_logits_func g logits
             \<lparr>lo_beam_state = beam_state v, lo_cpu_state = cpu_state v,
              lo_logits_processors = logits_processors g, lo_beam_scorer = beam_scorer g\<rparr>
             (temp_space_allocator g) (parameters g) counter (cuda_stream g)) \<and>
         (st1 \<noteq> OK \<longrightarrow>
            GenerateNextToken g logits v counter =
              Some (st1, g1, v\<lparr>beam_state := bs1, cpu_state := cs1\<rparr>)) \<and>
         (st1 = OK \<and> st2 \<noteq> OK \<longrightarrow>
            GenerateNextToken g logits v counter =
              Some (st2, g1, v\<lparr>beam_state := bs1\<lparr>beam_scores := target\<rparr>, cpu_state := cs1\<rparr>)) \<and>
         (\<forall>st g' v'. GenerateNextToken g logits v counter = Some (st, g', v') \<and> st \<noteq> OK \<longrightarrow>
            (st = st1 \<or> (st1 = OK \<and> st = st2)) \<and>
            sequences (cpu_state v') = sequences (cpu_state v) \<and>
            beam_next_tokens v' = beam_next_tokens v \<and>
            beam_indices v' = beam_indices v)"
proof (intro conjI)
  show "st1 = fst (process_logits_func g logits
             \<lparr>lo_beam_state = beam_state v, lo_cpu_state = cpu_state v,
              lo_logits_processors = logits_processors g, lo_beam_scorer = beam_scorer g\<rparr>
             (temp_space_allocator g) (parameters g) counter (cuda_stream g))"
    using pl by (auto simp: ProcessLogits_def split: prod.splits)
  show "st1 \<noteq> OK \<longrightarrow>
            GenerateNextToken g logits v counter =
              Some (st1, g1, v\<lparr>beam_state := bs1, cpu_state := cs1\<rparr>)"
    using pl by (simp add: GenerateNextToken_def IsOK_def Let_def)
  show "st1 = OK \<and> st2 \<noteq> OK \<longrightarrow>
            GenerateNextToken g logits v counter =
              Some (st2, g1, v\<lparr>beam_state := bs1\<lparr>beam_scores := target\<rparr>, cpu_state := cs1\<rparr>)"
    using pl dc by (simp add: GenerateNextToken_def IsOK_def Let_def)
  show "\<forall>st g' v'. GenerateNextToken g logits v counter = Some (st, g', v') \<and> st \<noteq> OK \<longrightarrow>
            (st = st1 \<or> (st1 = OK \<and> st = st2)) \<and>
            sequences (cpu_state v') = sequences (cpu_state v) \<and>
            beam_next_tokens v' = beam_next_tokens v \<and>
            beam_indices v' = beam_indices v"
    using pl dc frame
    by (auto simp: GenerateNextToken_def IsOK_def Let_def split: option.splits if_splits)
qed

text \<open>
  A failing process-logits function, and a failing device copy after successful logits
  processing: in both cases the error comes back and the stored sequence is still
  \<open>[5, 7]\<close>.
\<close>

theorem GenerateNextToken_propagates_errors_witness:
  "GenerateNextToken (example_stepper (Error ONNXRUNTIME FAIL [Text ''logits'']) OK) ()
       example_vars 0 =
     Some (Error ONNXRUNTIME FAIL [Text ''logits''],
           (example_stepper (Error ONNXRUNTIME FAIL [Text ''logits'']) OK)
              \<lparr>beam_scorer := example_scorer\<rparr>,
           example_vars) \<and>
   GenerateNextToken (example_stepper OK (Error ONNXRUNTIME FAIL [Text ''copy''])) ()
       example_vars 0 =
     Some (Error ONNXRUNTIME FAIL [Text ''copy''],
           (example_stepper OK (Error ONNXRUNTIME FAIL [Text ''copy'']))
              \<lparr>beam_scorer := example_scorer\<rparr>,
           example_vars\<lparr>beam_state := \<lparr>beam_scores = [1]\<rparr>\<rparr>) \<and>
   seqs (sequences (cpu_state example_vars)) = [[5, 7]]"
proof -
  let ?e1 = "Error ONNXRUNTIME FAIL [Text ''logits'']"
  let ?e2 = "Error ONNXRUNTIME FAIL [Text ''copy'']"
  let ?g1 = "example_stepper ?e1 OK"
  let ?g2 = "example_stepper OK ?e2"
  have pl1: "ProcessLogits ?g1 () (beam_state example_vars) (cpu_state example_vars)
               (temp_space_allocator ?g1) 0 =
             (?e1, ?g1\<lparr>beam_scorer := example_scorer\<rparr>, beam_state example_vars,
              cpu_state example_vars)"
    by (simp add: ProcessLogits_def example_stepper_def example_search_def)
  have dc1: "device_copy_func (?g1\<lparr>beam_scorer := example_scorer\<rparr>)
               (beam_scores (beam_state example_vars))
               (GetNextScores (beam_scorer (?g1\<lparr>beam_scorer := example_scorer\<rparr>)))
               (cuda_stream (?g1\<lparr>beam_scorer := example_scorer\<rparr>)) hostToDevice = (OK, [1])"
    by (simp add: example_stepper_def example_scorer_def)
  have first: "GenerateNextToken ?g1 () example_vars 0 =
      Some (?e1, ?g1\<lparr>beam_scorer := example_scorer\<rparr>, example_vars)"
    using GenerateNextToken_propagates_errors [OF pl1 dc1] by simp
  have pl2: "ProcessLogits ?g2 () (beam_state example_vars) (cpu_state example_vars)
               (temp_space_allocator ?g2) 0 =
             (OK, ?g2\<lparr>beam_scorer := example_scorer\<rparr>, beam_state example_vars,
              cpu_state example_vars)"
    by (simp add: ProcessLogits_def example_stepper_def example_search_def)
  have dc2: "device_copy_func (?g2\<lparr>beam_scorer := example_scorer\<rparr>)
               (beam_scores (beam_state example_vars))
               (GetNextScores (beam_scorer (?g2\<lparr>beam_scorer := example_scorer\<rparr>)))
               (cuda_stream (?g2\<lparr>beam_scorer := example_scorer\<rparr>)) hostToDevice = (?e2, [1])"
    by (simp add: example_stepper_def example_scorer_def)
  have second: "GenerateNextToken ?g2 () example_vars 0 =
      Some (?e2, ?g2\<lparr>beam_scorer := example_scorer\<rparr>,
            example_vars\<lparr>beam_state := \<lparr>beam_scores = [1]\<rparr>\<rparr>)"
    using GenerateNextToken_propagates_errors [OF pl2 dc2] by (simp add: example_vars_def)
  from first second show ?thesis
    by (simp add: example_vars_def example_sequences_def)
qed










section \<open>Properties of the sampling kernel\<close>

text \<open>
  Past the two \<^verbatim>\<open>ORT_ENFORCE\<close> checks and for a GPT-2 model, \<^verbatim>\<open>Compute\<close> is the
  following.
\<close>

lemma Compute_gpt:
  assumes "SubgraphSessionState ctx ''decoder'' = Some decoder_session_state"
    and "kernel_decoder_feeds_fetches_manager k = Some ffm"
    and "model_type (kernel_parameters k) = 0"
  shows "Compute cls k ctx =
     (if IsOutputFloat16 (kernel_gpt_subgraph k)
      then (case gpt_Initialize cls MLFloat16 (construct cls MLFloat16
                   (fp16_args k ctx decoder_session_state (GetOperatorThreadPool ctx) (kernel_parameters k))) of
              (st, impl1) \<Rightarrow>
                if st = OK then (case gpt_Execute cls MLFloat16 ffm impl1 of
                                   (st', impl2) \<Rightarrow> (Returned st', Some impl2))
                else (Returned st, Some impl1))
      else (case gpt_Initialize cls Float (construct cls Float
                   (float_args k ctx decoder_session_state (GetOperatorThreadPool ctx) (kernel_parameters k))) of
              (st, impl1) \<Rightarrow>
                if st = OK then (case gpt_Execute cls Float ffm impl1 of
                                   (st', impl2) \<Rightarrow> (Returned st', Some impl2))
                else (Returned st, Some impl1)))"
  using assms by (simp add: Compute_def Let_def IsOK_def split: prod.splits)

lemma ex_dss: "SubgraphSessionState (example_context d a b) ''decoder'' = Some 1"
  by (simp add: example_context_def)

lemma ex_ffm: "kernel_decoder_feeds_fetches_manager (example_kernel mt fp16) = Some 2"
  by (simp add: example_kernel_def)

lemma ex_model_type: "model_type (kernel_parameters (example_kernel mt fp16)) = mt"
  by (simp add: example_kernel_def)

lemma ex_fp16: "IsOutputFloat16 (kernel_gpt_subgraph (example_kernel mt fp16)) = fp16"
  by (simp add: example_kernel_def)

text \<open>
  The same, in terms of the branch taken; and the runs in which no search object exists.
\<close>

lemma Compute_taken:
  assumes "SubgraphSessionState ctx ''decoder'' = Some decoder_session_state"
    and "kernel_decoder_feeds_fetches_manager k = Some ffm"
    and "model_type (kernel_parameters k) = 0"
  shows "Compute cls k ctx =
     (case gpt_Initialize cls (taken_type k)
             (construct cls (taken_type k) (taken_args k ctx decoder_session_state)) of
        (st, impl1) \<Rightarrow>
          if st = OK then (case gpt_Execute cls (taken_type k) ffm impl1 of
                             (st', impl2) \<Rightarrow> (Returned st', Some impl2))
          else (Returned st, Some impl1))"
proof (cases "IsOutputFloat16 (kernel_gpt_subgraph k)")
  case True
  then have "taken_type k = MLFloat16"
    and "taken_args k ctx decoder_session_state =
           fp16_args k ctx decoder_session_state (GetOperatorThreadPool ctx) (kernel_parameters k)"
    by (simp_all add: taken_type_def taken_args_def)
  with True show ?thesis by (simp add: Compute_gpt [OF assms] split: prod.splits)
next
  case False
  then have "taken_type k = Float"
    and "taken_args k ctx decoder_session_state =
           float_args k ctx decoder_session_state (GetOperatorThreadPool ctx) (kernel_parameters k)"
    by (simp_all add: taken_type_def taken_args_def)
  with False show ?thesis by (simp add: Compute_gpt [OF assms] split: prod.splits)
qed

lemma Compute_no_search:
  assumes "SubgraphSessionState ctx ''decoder'' = None \<or>
           kernel_decoder_feeds_fetches_manager k = None \<or>
           model_type (kernel_parameters k) \<noteq> 0"
  shows "Compute (cls\<lparr>gpt_Execute := exec\<rparr>) k ctx = Compute cls k ctx"
  using assms by (auto simp: Compute_def Let_def split: option.splits)

text \<open>
  Claim C5.  For every run of \<^verbatim>\<open>Compute\<close>: either the outcome is the same whatever
  \<^verbatim>\<open>Execute\<close> is (\<^verbatim>\<open>Execute\<close> is not invoked), or the kernel is set up, the model is
  GPT-2 and \<^verbatim>\<open>Initialize\<close> has returned OK.  And for a kernel that is set up and a GPT-2
  model: if \<^verbatim>\<open>Initialize\<close> fails, \<^verbatim>\<open>Compute\<close> returns that very status, with the search
  object as \<^verbatim>\<open>Initialize\<close> left it, whatever \<^verbatim>\<open>Execute\<close> is; if \<^verbatim>\<open>Initialize\<close>
  succeeds, \<^verbatim>\<open>Compute\<close> returns what \<^verbatim>\<open>Execute\<close> returns on the object that
  \<^verbatim>\<open>Initialize\<close> left.
\<close>

theorem Compute_Execute_only_after_Initialize:
  "((\<forall>exec. Compute (cls\<lparr>gpt_Execute := exec\<rparr>) k ctx = Compute cls k ctx) \<or>
    (\<exists>decoder_session_state ffm.
        SubgraphSessionState ctx ''decoder'' = Some decoder_session_state \<and>
        kernel_decoder_feeds_fetches_manager k = Some ffm \<and>
        model_type (kernel_parameters k) = 0 \<and>
        fst (gpt_Initialize cls (taken_type k)
               (construct cls (taken_type k) (taken_args k ctx decoder_session_state))) = OK)) \<and>
   (SubgraphSessionState ctx ''decoder'' = Some decoder_session_state \<and>
    kernel_decoder_feeds_fetches_manager k = Some ffm \<and>
    model_type (kernel_parameters k) = 0 \<and>
    gpt_Initialize cls (taken_type k)
      (construct cls (taken_type k) (taken_args k ctx decoder_session_state)) = (st, impl1) \<longrightarrow>
      (st \<noteq> OK \<longrightarrow>
         (\<forall>exec. Compute (cls\<lparr>gpt_Execute := exec\<rparr>) k ctx = (Returned st, Some impl1))) \<and>
      (st = OK \<longrightarrow>
         Compute cls k ctx =
           (Returned (fst (gpt_Execute cls (taken_type k) ffm impl1)),
            Some (snd (gpt_Execute cls (taken_type k) ffm impl1)))))"
proof (intro conjI impI)
  show "(\<forall>exec. Compute (cls\<lparr>gpt_Execute := exec\<rparr>) k ctx = Compute cls k ctx) \<or>
    (\<exists>decoder_session_state ffm.
        SubgraphSessionState ctx ''decoder'' = Some decoder_session_state \<and>
        kernel_decoder_feeds_fetches_manager k = Some ffm \<and>
        model_type (kernel_parameters k) = 0 \<and>
        fst (gpt_Initialize cls (taken_type k)
               (construct cls (taken_type k) (taken_args k ctx decoder_session_state))) = OK)"
  proof (cases "SubgraphSessionState ctx ''decoder'' = None \<or>
           kernel_decoder_feeds_fetches_manager k = None \<or>
           model_type (kernel_parameters k) \<noteq> 0")
    case True
    then show ?thesis using Compute_no_search by blast
  next
    case False
    then obtain dss ffm where ready: "SubgraphSessionState ctx ''decoder'' = Some dss"
        "kernel_decoder_feeds_fetches_manager k = Some ffm" "model_type (kernel_parameters k) = 0"
      by auto
    show ?thesis
    proof (cases "fst (gpt_Initialize cls (taken_type k)
               (construct cls (taken_type k) (taken_args k ctx dss))) = OK")
      case True
      with ready show ?thesis by blast
    next
      case False
      obtain st impl1 where init: "gpt_Initialize cls (taken_type k)
               (construct cls (taken_type k) (taken_args k ctx dss)) = (st, impl1)"
        by (cases "gpt_Initialize cls (taken_type k)
               (construct cls (taken_type k) (taken_args k ctx dss))")
      with False have "st \<noteq> OK" by simp
      with init have "\<forall>exec. Compute (cls\<lparr>gpt_Execute := exec\<rparr>) k ctx = Compute cls k ctx"
        by (simp add: Compute_taken [OF ready])
      then show ?thesis by blast
    qed
  qed
next
  assume h: "SubgraphSessionState ctx ''decoder'' = Some decoder_session_state \<and>
    kernel_decoder_feeds_fetches_manager k = Some ffm \<and>
    model_type (kernel_parameters k) = 0 \<and>
    gpt_Initialize cls (taken_type k)
      (construct cls (taken_type k) (taken_args k ctx decoder_session_state)) = (st, impl1)"
  then have ready: "SubgraphSessionState ctx ''decoder'' = Some decoder_session_state"
        "kernel_decoder_feeds_fetches_manager k = Some ffm" "model_type (kernel_parameters k) = 0"
    and init: "gpt_Initialize cls (taken_type k)
      (construct cls (taken_type k) (taken_args k ctx decoder_session_state)) = (st, impl1)"
    by simp_all
  {
    assume "st \<noteq> OK"
    with init show "\<forall>exec. Compute (cls\<lparr>gpt_Execute := exec\<rparr>) k ctx = (Returned st, Some impl1)"
      by (simp add: Compute_taken [OF ready])
  }
  {
    assume "st = OK"
    with init show "Compute cls k ctx =
           (Returned (fst (gpt_Execute cls (taken_type k) ffm impl1)),
            Some (snd (gpt_Execute cls (taken_type k) ffm impl1)))"
      by (simp add: Compute_taken [OF ready] split: prod.splits)
  }
qed

text \<open>
  With a class that records its calls: a failing \<^verbatim>\<open>Initialize\<close> leaves the record
  without \<^verbatim>\<open>Execute\<close>; a successful one is followed by \<^verbatim>\<open>Execute\<close>.
\<close>

theorem Compute_Execute_only_after_Initialize_witness:
  "Compute (example_class (Error ONNXRUNTIME FAIL [Text ''max_length is required'']))
     (example_kernel 0 False) (example_context [2, 5] None None) =
     (Returned (Error ONNXRUNTIME FAIL [Text ''max_length is required'']),
      Some [(''construct'', Float), (''Initialize'', Float)]) \<and>
   Compute (example_class OK) (example_kernel 0 False) (example_context [2, 5] (Some []) None) =
     (Returned OK, Some [(''construct'', Float), (''Initialize'', Float), (''Execute'', Float)])"
proof -
  let ?e = "Error ONNXRUNTIME FAIL [Text ''max_length is required'']"
  let ?k = "example_kernel 0 False"
  let ?c1 = "example_context [2, 5] None None"
  let ?c2 = "example_context [2, 5] (Some []) None"
  let ?log = "[(''construct'', Float), (''Initialize'', Float)]"
  have T: "taken_type ?k = Float" by (simp add: taken_type_def ex_fp16)
  have init1: "gpt_Initialize (example_class ?e) (taken_type ?k)
         (construct (example_class ?e) (taken_type ?k) (taken_args ?k ?c1 1)) = (?e, ?log)"
    by (simp add: example_class_def T)
  from ex_dss [of "[2, 5]" None None] ex_ffm [of 0 False] ex_model_type [of 0 False] init1
  have pre1: "SubgraphSessionState ?c1 ''decoder'' = Some 1 \<and>
      kernel_decoder_feeds_fetches_manager ?k = Some 2 \<and>
      model_type (kernel_parameters ?k) = 0 \<and>
      gpt_Initialize (example_class ?e) (taken_type ?k)
         (construct (example_class ?e) (taken_type ?k) (taken_args ?k ?c1 1)) = (?e, ?log)"
    by blast
  have "?e \<noteq> OK \<longrightarrow>
          (\<forall>exec. Compute ((example_class ?e)\<lparr>gpt_Execute := exec\<rparr>) ?k ?c1 = (Returned ?e, Some ?log))"
    using Compute_Execute_only_after_Initialize
            [of "example_class ?e" ?k ?c1 1 2 ?e ?log, THEN conjunct2, THEN mp, OF pre1]
    by (rule conjunct1)
  then have "Compute ((example_class ?e)\<lparr>gpt_Execute := gpt_Execute (example_class ?e)\<rparr>) ?k ?c1 =
       (Returned ?e, Some ?log)"
    by blast
  then have fail: "Compute (example_class ?e) ?k ?c1 = (Returned ?e, Some ?log)"
    by simp
  have init2: "gpt_Initialize (example_class OK) (taken_type ?k)
         (construct (example_class OK) (taken_type ?k) (taken_args ?k ?c2 1)) = (OK, ?log)"
    by (simp add: example_class_def T)
  from ex_dss [of "[2, 5]" "Some []" None] ex_ffm [of 0 False] ex_model_type [of 0 False] init2
  have pre2: "SubgraphSessionState ?c2 ''decoder'' = Some 1 \<and>
      kernel_decoder_feeds_fetches_manager ?k = Some 2 \<and>
      model_type (kernel_parameters ?k) = 0 \<and>
      gpt_Initialize (example_class OK) (taken_type ?k)
         (construct (example_class OK) (taken_type ?k) (taken_args ?k ?c2 1)) = (OK, ?log)"
    by blast
  have "OK = OK \<longrightarrow> Compute (example_class OK) ?k ?c2 =
           (Returned (fst (gpt_Execute (example_class OK) (taken_type ?k) 2 ?log)),
            Some (snd (gpt_Execute (example_class OK) (taken_type ?k) 2 ?log)))"
    using Compute_Execute_only_after_Initialize
            [of "example_class OK" ?k ?c2 1 2 OK ?log, THEN conjunct2, THEN mp, OF pre2]
    by (rule conjunct2)
  then have ok: "Compute (example_class OK) ?k ?c2 =
       (Returned OK, Some [(''construct'', Float), (''Initialize'', Float), (''Execute'', Float)])"
    by (simp add: example_class_def T)
  from fail ok show ?thesis by simp
qed

text \<open>
  Claim C8.  For a kernel that is set up and a GPT-2 model, \<^verbatim>\<open>Compute\<close> is the one
  generic search (initialise, then execute), instantiated with \<open>MLFloat16\<close> if and only
  if the subgraph output is float16 and with \<open>Float\<close> otherwise; the two branches differ
  in the element type and in the constructor arguments, not in their control flow.
\<close>

theorem Compute_generic_in_element_type:
  assumes "SubgraphSessionState ctx ''decoder'' = Some decoder_session_state"
    and "kernel_decoder_feeds_fetches_manager k = Some ffm"
    and "model_type (kernel_parameters k) = 0"
  shows "Compute cls k ctx =
     (if IsOutputFloat16 (kernel_gpt_subgraph k)
      then generic_search cls MLFloat16
             (fp16_args k ctx decoder_session_state (GetOperatorThreadPool ctx) (kernel_parameters k)) ffm
      else generic_search cls Float
             (float_args k ctx decoder_session_state (GetOperatorThreadPool ctx) (kernel_parameters k)) ffm)"
  by (simp add: Compute_gpt [OF assms] generic_search_def)

text \<open>
  Both instantiations with the recording class.
\<close>

theorem Compute_generic_in_element_type_witness:
  "Compute (example_class OK) (example_kernel 0 True) (example_context [2, 5] (Some []) None) =
     (Returned OK, Some [(''construct'', MLFloat16), (''Initialize'', MLFloat16), (''Execute'', MLFloat16)]) \<and>
   Compute (example_class OK) (example_kernel 0 False) (example_context [2, 5] (Some []) None) =
     (Returned OK, Some [(''construct'', Float), (''Initialize'', Float), (''Execute'', Float)])"
  using Compute_generic_in_element_type
          [OF ex_dss [of "[2, 5]" "Some []" None] ex_ffm [of 0 True] ex_model_type [of 0 True],
           where cls = "example_class OK"]
        Compute_generic_in_element_type
          [OF ex_dss [of "[2, 5]" "Some []" None] ex_ffm [of 0 False] ex_model_type [of 0 False],
           where cls = "example_class OK"]
  by (simp add: ex_fp16 generic_search_def example_class_def)

text \<open>
  Claim C9.  For a kernel that is set up and a model type other than 0, \<^verbatim>\<open>Compute\<close>
  returns \<^verbatim>\<open>Status::OK\<close> and constructs no search object, whatever the search class is:
  nothing is initialised, nothing is executed, nothing is generated.
\<close>

theorem Compute_other_model_type:
  assumes "SubgraphSessionState ctx ''decoder'' = Some decoder_session_state"
    and "kernel_decoder_feeds_fetches_manager k = Some ffm"
    and "model_type (kernel_parameters k) \<noteq> 0"
  shows "Compute cls k ctx = (Returned OK, None)"
  using assms by (simp add: Compute_def Let_def)

text \<open>
  Model type 1.
\<close>

theorem Compute_other_model_type_witness:
  "SubgraphSessionState (example_context [2, 5] (Some []) None) ''decoder'' = Some 1 \<and>
   kernel_decoder_feeds_fetches_manager (example_kernel 1 False) = Some 2 \<and>
   model_type (kernel_parameters (example_kernel 1 False)) \<noteq> 0 \<and>
   Compute (example_class OK) (example_kernel 1 False) (example_context [2, 5] (Some []) None) =
     (Returned OK, None)"
proof -
  have mt: "model_type (kernel_parameters (example_kernel 1 False)) \<noteq> 0"
    by (simp add: ex_model_type)
  from Compute_other_model_type
         [OF ex_dss [of "[2, 5]" "Some []" None] ex_ffm [of 1 False] mt,
          where cls = "example_class OK"]
  show ?thesis by (simp add: ex_dss ex_ffm mt)
qed

end
